theory Spec2Isabelle
  imports Main "HOL-Library.Word"
begin

section \<open>The C library \<open>c_lib.c\<close>\<close>

text \<open>
  The unit exports two functions, \<open>square\<close> and \<open>talk_from_c\<close>, and defines the
  macro \<open>MY_NUM\<close>. A value of type \<open>int32_t\<close> is a 32-bit word, read as two's
  complement by \<open>sint\<close>. The product \<open>x * x\<close> of the source is the product of 32-bit
  words, which wraps around: this is what the object file built by the command of the
  source's first line (\<open>-O3\<close>, no overflow trap) computes. ISO C itself leaves a signed
  product that does not fit undefined; \<open>square_fits\<close> below says when it fits.
\<close>

type_synonym int32_t = "32 word"

text \<open>\<^verbatim>\<open>#define MY_NUM 4\<close>: an integer constant of type \<open>int\<close>.\<close>

definition MY_NUM :: int where
  "MY_NUM = 4"

text \<open>\<^verbatim>\<open>int32_t square(int32_t x) { return x * x; }\<close>\<close>

definition square :: "int32_t \<Rightarrow> int32_t" where
  "square x = x * x"

text \<open>The mathematical square of the argument is representable in \<open>int32_t\<close>.\<close>

definition square_fits :: "int32_t \<Rightarrow> bool" where
  "square_fits x \<longleftrightarrow> sint x * sint x < 2 ^ 31"

subsection \<open>Standard output\<close>

text \<open>
  \<open>printf\<close> is modelled on the text written so far to standard output. Of the
  conversion specifications only \<open>%d\<close> is modelled, the one the source uses; it
  consumes the next \<open>int\<close> argument and writes it in decimal. A format that asks for
  an argument that is not there, or uses another conversion, has no result here.
  Write errors of the stream are not modelled.
\<close>

definition digit_char :: "nat \<Rightarrow> char" where
  "digit_char d = ''0123456789'' ! (d mod 10)"

fun digits :: "nat \<Rightarrow> string" where
  "digits n =
     (if n < 10 then [digit_char n]
      else digits (n div 10) @ [digit_char (n mod 10)])"

declare digits.simps [simp del]

definition show_int :: "int \<Rightarrow> string" where
  "show_int i = (if i < 0 then CHR ''-'' # digits (nat (- i)) else digits (nat i))"

fun format :: "string \<Rightarrow> int list \<Rightarrow> string option" where
  "format [] args = Some []"
| "format (c # cs) args =
     (if c = CHR ''%'' then
        (case cs of
           [] \<Rightarrow> None
         | d # rest \<Rightarrow>
             (if d = CHR ''d'' then
                (case args of
                   [] \<Rightarrow> None
                 | a # args' \<Rightarrow> map_option ((@) (show_int a)) (format rest args'))
              else None))
      else map_option ((#) c) (format cs args))"

definition printf :: "string \<Rightarrow> int list \<Rightarrow> string \<Rightarrow> string option" where
  "printf fmt args out = map_option ((@) out) (format fmt args)"

text \<open>
  \<^verbatim>\<open>void talk_from_c(){
      printf("Hi! This is being printed from a C library!!\n");
      printf("C says: square of %d is %d\n", MY_NUM, square(MY_NUM));
  }\<close>
  The argument \<open>MY_NUM\<close> of \<open>square\<close> is converted from \<open>int\<close> to \<open>int32_t\<close>, and
  the result back to \<open>int\<close> for \<open>%d\<close>.
\<close>

definition talk_from_c :: "string \<Rightarrow> string option" where
  "talk_from_c out =
     (case printf ''Hi! This is being printed from a C library!!\<newline>'' [] out of
        None \<Rightarrow> None
      | Some out' \<Rightarrow>
          printf ''C says: square of %d is %d\<newline>''
            [MY_NUM, sint (square (word_of_int MY_NUM))] out')"

section \<open>Properties of \<open>square\<close>\<close>

lemma square_exact_if_fits:
  assumes "square_fits x"
  shows "sint (square x) = sint x * sint x"
proof -
  have "- (2 ^ 31) \<le> (0::int)" by simp
  also have "0 \<le> sint x * sint x" by simp
  finally have lo: "- (2 ^ 31) \<le> sint x * sint x" .
  have hi: "sint x * sint x < 2 ^ 31"
    using assms by (simp add: square_fits_def)
  have "signed_take_bit 31 (sint x * sint x) = sint x * sint x"
    using lo hi by (rule signed_take_bit_int_eq_self)
  then show ?thesis
    by (simp add: square_def sint_word_ariths)
qed

lemma square_exact_46340: "square_fits 46340 \<and> sint (square 46340) = 2147395600"
  using square_exact_if_fits [of 46340] by (simp add: square_fits_def)

lemma square_46341_does_not_fit: "\<not> square_fits 46341"
  by (simp add: square_fits_def)

lemma int32_min_negation: "- (- 2147483648 :: int32_t) = - 2147483648"
  by simp

lemma square_int32_min: "square (- 2147483648) = 0"
  by (simp add: square_def)

text \<open>
  Claim C1. For every 32-bit signed integer \<open>x\<close>, \<open>square x\<close> is the product of \<open>x\<close>
  with itself in 32-bit two's-complement arithmetic: read as a signed number, the result
  is the mathematical square of \<open>x\<close> reduced modulo \<open>2 ^ 32\<close> into the range from
  \<open>- (2 ^ 31)\<close> up to \<open>2 ^ 31 - 1\<close>.
\<close>

theorem square_twos_complement:
  "sint (square x) = (sint x * sint x + 2 ^ 31) mod 2 ^ 32 - 2 ^ 31"
  unfolding square_def
  by (simp add: sint_word_ariths signed_take_bit_eq_take_bit_shift take_bit_eq_mod)

text \<open>
  Claim C9. For every 32-bit signed integer \<open>x\<close>, the square of the two's-complement
  negation of \<open>x\<close> is the square of \<open>x\<close>. The statement has no side condition, so it
  covers \<open>x = INT32_MIN\<close>, whose negation is itself (\<open>int32_min_negation\<close>).
\<close>

theorem square_even: "square (- x) = square x"
  by (simp add: square_def)

text \<open>
  Claim C10. There is a 32-bit signed integer whose square, as returned by \<open>square\<close>,
  is negative: at \<open>x = 46341\<close> the mathematical square \<open>2147488281\<close> exceeds
  \<open>2 ^ 31 - 1\<close> and the wrapped result is \<open>- 2147479015\<close>.
\<close>

theorem square_46341_negative:
  "sint (square 46341) = - 2147479015 \<and> (\<exists>x. sint (square x) < 0)"
proof
  show v: "sint (square 46341) = - 2147479015"
    by (simp add: square_def)
  have "sint (square 46341) < 0"
    by (simp add: v)
  then show "\<exists>x. sint (square x) < 0" ..
qed

section \<open>The output of \<open>talk_from_c\<close>\<close>

lemma show_int_4: "show_int 4 = ''4''"
  by (simp add: show_int_def digits.simps digit_char_def)

lemma show_int_16: "show_int 16 = ''16''"
  by (simp add: show_int_def digits.simps digit_char_def)

lemma square_MY_NUM: "sint (square (word_of_int MY_NUM)) = 16"
  by (simp add: MY_NUM_def square_def)

text \<open>
  Claim C8. Every call of \<open>talk_from_c\<close> appends to standard output exactly two lines,
  \<open>Hi! This is being printed from a C library!!\<close> and
  \<open>C says: square of 4 is 16\<close>, each ended by a newline, whatever was written before.
\<close>

theorem talk_from_c_output:
  "talk_from_c out =
     Some (out @ ''Hi! This is being printed from a C library!!\<newline>''
               @ ''C says: square of 4 is 16\<newline>'')"
  by (simp add: talk_from_c_def printf_def square_MY_NUM show_int_16)
     (simp add: MY_NUM_def show_int_4)

end
